theory Spec2Isabelle
  imports Complex_Main "HOL-Library.Char_ord" "HOL-Library.List_Lexorder" "HOL-Library.Multiset"
begin

section \<open>Numbers\<close>

text \<open>
  The statistics are computed on 64-bit floats by numpy and pandas. A float is modelled as
  a real number or one of the three special values; rounding, overflow and the sign of zero
  are not modelled, so every finite operation is the exact one. The special values are kept
  because numpy returns them (with a warning, not an exception) where exact arithmetic has
  no answer: a quotient by zero, a fractional power of a negative number.
\<close>

datatype npfloat = Finite real | PosInf | NegInf | NaN

datatype exn = ZeroDivisionError | ValueError | KeyError

fun np_negative :: "npfloat \<Rightarrow> npfloat" where
  "np_negative (Finite a) = Finite (- a)"
| "np_negative PosInf = NegInf"
| "np_negative NegInf = PosInf"
| "np_negative NaN = NaN"

fun np_add :: "npfloat \<Rightarrow> npfloat \<Rightarrow> npfloat" where
  "np_add (Finite a) (Finite b) = Finite (a + b)"
| "np_add NaN _ = NaN"
| "np_add _ NaN = NaN"
| "np_add PosInf NegInf = NaN"
| "np_add NegInf PosInf = NaN"
| "np_add PosInf _ = PosInf"
| "np_add _ PosInf = PosInf"
| "np_add NegInf _ = NegInf"
| "np_add _ NegInf = NegInf"

definition np_subtract :: "npfloat \<Rightarrow> npfloat \<Rightarrow> npfloat" where
  "np_subtract a b = np_add a (np_negative b)"

text \<open>
  \<open>a / b\<close> on numpy floats. A finite quotient by zero is \<open>inf\<close>, \<open>-inf\<close> or \<open>nan\<close>
  by the sign of the numerator (the zero divisors met here are results of \<open>np.std\<close>, a
  square root, hence \<open>+0.0\<close>).
\<close>

fun np_true_divide :: "npfloat \<Rightarrow> npfloat \<Rightarrow> npfloat" where
  "np_true_divide (Finite a) (Finite b) =
     (if b = 0 then (if a = 0 then NaN else if 0 < a then PosInf else NegInf)
      else Finite (a / b))"
| "np_true_divide NaN _ = NaN"
| "np_true_divide _ NaN = NaN"
| "np_true_divide (Finite a) PosInf = Finite 0"
| "np_true_divide (Finite a) NegInf = Finite 0"
| "np_true_divide PosInf (Finite b) = (if 0 \<le> b then PosInf else NegInf)"
| "np_true_divide NegInf (Finite b) = (if 0 \<le> b then NegInf else PosInf)"
| "np_true_divide PosInf PosInf = NaN"
| "np_true_divide PosInf NegInf = NaN"
| "np_true_divide NegInf PosInf = NaN"
| "np_true_divide NegInf NegInf = NaN"

text \<open>
  \<open>base ** e\<close> for a finite Python float \<open>e\<close> (C \<open>pow\<close>): anything to the power
  zero is one, a negative base has a power only for an integral exponent.
\<close>

fun np_power :: "npfloat \<Rightarrow> real \<Rightarrow> npfloat" where
  "np_power (Finite b) e =
     (if e = 0 then Finite 1
      else if 0 < b then Finite (b powr e)
      else if b = 0 then (if 0 < e then Finite 0 else PosInf)
      else if e = of_int \<lfloor>e\<rfloor> then Finite (b powi \<lfloor>e\<rfloor>)
      else NaN)"
| "np_power NaN e = (if e = 0 then Finite 1 else NaN)"
| "np_power PosInf e = (if e = 0 then Finite 1 else if 0 < e then PosInf else Finite 0)"
| "np_power NegInf e =
     (if e = 0 then Finite 1
      else if e < 0 then Finite 0
      else if e = of_int \<lfloor>e\<rfloor> \<and> odd \<lfloor>e\<rfloor> then NegInf
      else PosInf)"


text \<open>
  \<open>np.mean\<close> and \<open>np.std\<close> of a pandas Series of finite values. \<open>np.std\<close> has
  \<open>ddof = 0\<close>: the population standard deviation. On an empty Series both are \<open>nan\<close>.
\<close>

definition np_mean :: "real list \<Rightarrow> npfloat" where
  "np_mean x = (if x = [] then NaN else Finite (sum_list x / real (length x)))"

definition np_std :: "real list \<Rightarrow> npfloat" where
  "np_std x =
     (if x = [] then NaN
      else Finite (sqrt (sum_list (map (\<lambda>v. (v - sum_list x / real (length x))\<^sup>2) x)
                          / real (length x))))"

section \<open>Tables\<close>

text \<open>
  A row of \<open>daily_returns\<close> after the merge with the benchmark file: the columns
  \<open>date\<close>, \<open>ticker\<close>, \<open>return\<close>, \<open>benchmark\<close>, \<open>bench_return\<close>. A date is
  its day number (\<open>toordinal\<close>); the two returns are finite fractions.
\<close>

record returns_row =
  date :: int
  ticker :: string
  return :: real
  benchmark :: string
  bench_return :: real

text \<open>
  A result DataFrame: the index labels (tickers) and the columns, each a label with one
  value per index label, in column order.
\<close>

record 'a frame =
  index :: "string list"
  data :: "(string \<times> 'a list) list"

text \<open>\<open>pd.DataFrame(s)\<close> for a Series \<open>s\<close> with the given name: one column.\<close>

definition DataFrame :: "string \<Rightarrow> (string \<times> 'a) list \<Rightarrow> 'a frame" where
  "DataFrame name s = \<lparr>index = map fst s, data = [(name, map snd s)]\<rparr>"

text \<open>\<open>df.columns = names\<close>: relabels the columns, \<open>ValueError\<close> on a length mismatch.\<close>

definition set_columns :: "'a frame \<Rightarrow> string list \<Rightarrow> exn + 'a frame" where
  "set_columns df names =
     (if length names \<noteq> length (data df) then Inl ValueError
      else Inr (df\<lparr>data := zip names (map snd (data df))\<rparr>))"

text \<open>\<open>df[c]\<close>: the values of column \<open>c\<close>, \<open>KeyError\<close> when there is none.\<close>

definition getitem :: "'a frame \<Rightarrow> string \<Rightarrow> exn + 'a list" where
  "getitem df c = (case map_of (data df) c of None \<Rightarrow> Inl KeyError | Some vs \<Rightarrow> Inr vs)"

text \<open>
  \<open>df[c] = vs\<close> for values on the same index: replaces column \<open>c\<close> in place or appends
  it as the last column.
\<close>

definition setitem :: "'a frame \<Rightarrow> string \<Rightarrow> 'a list \<Rightarrow> 'a frame" where
  "setitem df c vs =
     (if c \<in> fst ` set (data df)
      then df\<lparr>data := map (\<lambda>(k, v). if k = c then (k, vs) else (k, v)) (data df)\<rparr>
      else df\<lparr>data := data df @ [(c, vs)]\<rparr>)"

text \<open>\<open>df[[c]]\<close>: a new frame with the single column \<open>c\<close>.\<close>

definition getitem_list :: "'a frame \<Rightarrow> string \<Rightarrow> exn + 'a frame" where
  "getitem_list df c =
     (case map_of (data df) c of
        None \<Rightarrow> Inl KeyError
      | Some vs \<Rightarrow> Inr (df\<lparr>data := [(c, vs)]\<rparr>))"

text \<open>\<open>df.loc[t, c]\<close> as an option: the value of column \<open>c\<close> at index label \<open>t\<close>.\<close>

definition loc :: "'a frame \<Rightarrow> string \<Rightarrow> string \<Rightarrow> 'a option" where
  "loc df t c =
     (case map_of (data df) c of
        None \<Rightarrow> None
      | Some vs \<Rightarrow> map_of (zip (index df) vs) t)"

text \<open>
  \<open>df.groupby(['ticker'])\<close>: pandas sorts the group keys (\<open>sort=True\<close> is the default)
  and keeps the rows of a group in table order. Only tickers that occur get a group.
\<close>

definition groupby :: "returns_row list \<Rightarrow> (string \<times> returns_row list) list" where
  "groupby df =
     map (\<lambda>k. (k, filter (\<lambda>r. ticker r = k) df)) (sort (remdups (map ticker df)))"

text \<open>\<open>.apply(f)\<close> on the groups: a Series indexed by the group keys.\<close>

definition groupby_apply :: "(returns_row list \<Rightarrow> 'a) \<Rightarrow> (string \<times> returns_row list) list
    \<Rightarrow> (string \<times> 'a) list" where
  "groupby_apply f groups = map (\<lambda>(k, g). (k, f g)) groups"

text \<open>
  \<open>.apply(f)\<close> on the groups of the whole table, for an \<open>f\<close> that returns a scalar
  or raises. The first exception ends the call. With no group at all pandas has no value
  to build a Series from and returns an empty DataFrame instead, with the columns of the
  table (with no column in older versions: in no version with exactly one).
\<close>

datatype 'a applied = Series "(string \<times> 'a) list" | Frame "'a frame"

fun apply_each :: "(returns_row list \<Rightarrow> exn + 'a) \<Rightarrow> (string \<times> returns_row list) list
    \<Rightarrow> exn + (string \<times> 'a) list" where
  "apply_each f [] = Inr []"
| "apply_each f ((k, g) # groups) =
     (case f g of
        Inl e \<Rightarrow> Inl e
      | Inr v \<Rightarrow> (case apply_each f groups of Inl e \<Rightarrow> Inl e | Inr s \<Rightarrow> Inr ((k, v) # s)))"

definition DataFrameGroupBy_apply :: "(returns_row list \<Rightarrow> exn + 'a)
    \<Rightarrow> (string \<times> returns_row list) list \<Rightarrow> exn + 'a applied" where
  "DataFrameGroupBy_apply f groups =
     (if groups = []
      then Inr (Frame \<lparr>index = [], data = map (\<lambda>c. (c, []))
             [''date'', ''ticker'', ''return'', ''benchmark'', ''bench_return'']\<rparr>)
      else (case apply_each f groups of Inl e \<Rightarrow> Inl e | Inr s \<Rightarrow> Inr (Series s)))"

text \<open>
  \<open>pd.DataFrame(x)\<close> for the value of such an \<open>apply\<close>: a Series without a name
  becomes the single column \<open>0\<close>, a DataFrame stays as it is.
\<close>

fun DataFrame_of :: "'a applied \<Rightarrow> 'a frame" where
  "DataFrame_of (Series s) = DataFrame ''0'' s"
| "DataFrame_of (Frame df) = df"

section \<open>Linear regression\<close>

text \<open>
  \<open>sklearn.linear_model.LinearRegression().fit(X, y)\<close> with one feature and one target,
  \<open>fit_intercept=True\<close>: both columns are centred on their means and the centred system
  is solved by \<open>lstsq\<close>, whose answer is the least-squares solution of minimum norm, so
  the coefficient is \<open>0\<close> when the centred feature vanishes. The intercept is the
  mean of \<open>y\<close> minus the coefficient times the mean of \<open>X\<close>. Zero samples, and
  columns of different lengths, are rejected with \<open>ValueError\<close>. \<open>coef\<close> and \<open>intercept\<close> are the single entries of
  the fitted \<open>coef_\<close> and \<open>intercept_\<close>, which \<open>float\<close> reads.
\<close>

record LinearRegression =
  coef :: real
  intercept :: real

definition fit :: "real list \<Rightarrow> real list \<Rightarrow> exn + LinearRegression" where
  "fit X y =
     (if X = [] \<or> length X \<noteq> length y then Inl ValueError
      else
        let X_offset = sum_list X / real (length X);
            y_offset = sum_list y / real (length y);
            Sxx = sum_list (map (\<lambda>u. (u - X_offset)\<^sup>2) X);
            Sxy = sum_list (map (\<lambda>(u, v). (u - X_offset) * (v - y_offset)) (zip X y));
            c = (if Sxx = 0 then 0 else Sxy / Sxx)
        in Inr \<lparr>coef = c, intercept = y_offset - X_offset * c\<rparr>)"

section \<open>The analyzer\<close>

record StockPerformance =
  days_in_year :: real
  risk_free_rate :: real
  tickers :: "string list"
  start_date :: int
  end_date :: int
  interval :: int
  daily_returns :: "returns_row list"

text \<open>
  \<open>__init__\<close>. The database and the benchmark file are outside the program; their
  contents are parameters. \<open>db\<close> is the relation the query selects from (\<open>p_date\<close>,
  \<open>ticker_region\<close>, \<open>one_day_pct\<close>), in the order the database yields its rows, and
  the query keeps the rows of the requested tickers between the two dates. \<open>bench\<close> holds
  the rows of the file (\<open>date\<close>, \<open>benchmark\<close>, \<open>bench_return\<close>), \<open>None\<close> for an
  empty cell. The percentages of the database are finite numbers. The two date strings
  are given by the day numbers of the dates they spell (a string that \<open>strptime\<close>
  rejects is no input of the model); \<open>interval\<close> is the difference of the two dates in
  days, plus one.
\<close>

definition fetchall :: "string list \<Rightarrow> int \<Rightarrow> int \<Rightarrow> (int \<times> string \<times> real) list
    \<Rightarrow> (int \<times> string \<times> real) list" where
  "fetchall tickers' start_date' end_date' db =
     filter (\<lambda>(p_date, ticker_region, one_day_pct).
        ticker_region \<in> set tickers' \<and> start_date' \<le> p_date \<and> p_date \<le> end_date') db"

text \<open>
  \<open>daily_returns.merge(bench_returns, on='date', how='left').dropna(subset=['bench_return'])\<close>:
  every row of the left table, in order, once for each benchmark row of its date; the rows
  left without a benchmark return are dropped.
\<close>

definition merge_dropna :: "(int \<times> string \<times> real) list \<Rightarrow> (int \<times> string \<times> real option) list
    \<Rightarrow> returns_row list" where
  "merge_dropna daily bench =
     concat (map (\<lambda>(d, t, r).
        concat (map (\<lambda>(d', b, br).
           (case br of
              None \<Rightarrow> []
            | Some v \<Rightarrow> if d' = d
                then [\<lparr>date = d, ticker = t, return = r, benchmark = b, bench_return = v\<rparr>]
                else [])) bench)) daily)"

definition init :: "string list \<Rightarrow> int \<Rightarrow> int \<Rightarrow> (int \<times> string \<times> real) list
    \<Rightarrow> (int \<times> string \<times> real option) list \<Rightarrow> StockPerformance" where
  "init tickers' start_date' end_date' db bench =
     (let daily = map (\<lambda>(d, t, pct). (d, t, pct / 100)) (fetchall tickers' start_date' end_date' db)
      in \<lparr>days_in_year = 365.25,
          risk_free_rate = 0.00007,
          tickers = tickers',
          start_date = start_date',
          end_date = end_date',
          interval = (end_date' - start_date') + 1,
          daily_returns = merge_dropna daily bench\<rparr>)"

text \<open>
  \<open>capm_regression\<close>, the helper of the two CAPM methods. \<open>None\<close> is Python's
  \<open>None\<close>, returned when \<open>stat\<close> is neither \<open>'beta'\<close> nor \<open>'alpha'\<close>. Of the
  analyzer it reads the risk-free rate.
\<close>

definition capm_regression :: "StockPerformance \<Rightarrow> returns_row list \<Rightarrow> string \<Rightarrow> string \<Rightarrow> string
    \<Rightarrow> exn + npfloat option" where
  "capm_regression self data' port_returns bench_returns stat =
     (let X = map (\<lambda>r. bench_return r - risk_free_rate self) data';
          y = map (\<lambda>r. return r - risk_free_rate self) data'
      in case fit X y of
           Inl e \<Rightarrow> Inl e
         | Inr reg \<Rightarrow>
             if stat = ''beta'' then Inr (Some (Finite (coef reg)))
             else if stat = ''alpha'' then Inr (Some (Finite (intercept reg)))
             else Inr None)"

text \<open>
  Each of the five statistic methods takes the analyzer and returns its result, a frame or the exception raised,
  with the analyzer after the call. The frames a method assigns to (\<open>.columns = ...\<close>,
  \<open>['cagr'] = ...\<close>) are those it has just built with \<open>pd.DataFrame\<close>, objects
  of their own and not the stored table: they are local values here.
\<close>

text \<open>The function applied by \<open>calc_total_returns\<close>: \<open>lambda x: (1 + x).prod() - 1\<close>.\<close>

definition total_return :: "real list \<Rightarrow> npfloat" where
  "total_return x = Finite (prod_list (map (\<lambda>v. 1 + v) x) - 1)"

definition calc_total_returns ::
    "StockPerformance \<Rightarrow> (exn + npfloat frame) \<times> StockPerformance" where
  "calc_total_returns self =
     (let returns_df = DataFrame ''return''
            (groupby_apply (\<lambda>g. total_return (map return g)) (groupby (daily_returns self)))
      in (set_columns returns_df [''total_return''], self))"

text \<open>Python's \<open>a / b\<close> for a float \<open>a\<close> and an int \<open>b\<close>.\<close>

definition truediv :: "real \<Rightarrow> int \<Rightarrow> exn + real" where
  "truediv a b = (if b = 0 then Inl ZeroDivisionError else Inr (a / real_of_int b))"

text \<open>
  \<open>calc_cagrs\<close>: the frame of total returns gets the column \<open>cagr\<close>, and the result
  is a frame with that column alone. Python evaluates the right-hand side, the column
  lookup before the quotient, and assigns last.
\<close>

definition calc_cagrs ::
    "StockPerformance \<Rightarrow> (exn + npfloat frame) \<times> StockPerformance" where
  "calc_cagrs self =
     (case calc_total_returns self of
        (Inl e, self) \<Rightarrow> (Inl e, self)
      | (Inr cagr_df, self) \<Rightarrow>
          (case getitem cagr_df ''total_return'' of
             Inl e \<Rightarrow> (Inl e, self)
           | Inr totals \<Rightarrow>
               (case truediv (days_in_year self) (interval self) of
                  Inl e \<Rightarrow> (Inl e, self)
                | Inr p \<Rightarrow>
                    let cagr_df = setitem cagr_df ''cagr''
                          (map (\<lambda>v. np_subtract (np_power (np_add (Finite 1) v) p) (Finite 1)) totals)
                    in (getitem_list cagr_df ''cagr'', self))))"

definition calc_alphas ::
    "StockPerformance \<Rightarrow> (exn + npfloat option frame) \<times> StockPerformance" where
  "calc_alphas self =
     (let alpha_df = groupby (daily_returns self)
      in case DataFrameGroupBy_apply
                (\<lambda>g. capm_regression self g ''return'' ''bench_return'' ''alpha'') alpha_df of
           Inl e \<Rightarrow> (Inl e, self)
         | Inr alpha_df \<Rightarrow>
             let alpha_df = DataFrame_of alpha_df
             in (set_columns alpha_df [''capm_alpha''], self))"

definition calc_betas ::
    "StockPerformance \<Rightarrow> (exn + npfloat option frame) \<times> StockPerformance" where
  "calc_betas self =
     (let beta_df = groupby (daily_returns self)
      in case DataFrameGroupBy_apply
                (\<lambda>g. capm_regression self g ''return'' ''bench_return'' ''beta'') beta_df of
           Inl e \<Rightarrow> (Inl e, self)
         | Inr beta_df \<Rightarrow>
             let beta_df = DataFrame_of beta_df
             in (set_columns beta_df [''capm_beta''], self))"

text \<open>
  The function applied by \<open>calc_sharpe_ratios\<close>:
  \<open>lambda x: (np.mean(x) - self.risk_free_rate) / np.std(x)\<close>.
\<close>

definition sharpe_ratio :: "real \<Rightarrow> real list \<Rightarrow> npfloat" where
  "sharpe_ratio rf x = np_true_divide (np_subtract (np_mean x) (Finite rf)) (np_std x)"

definition calc_sharpe_ratios ::
    "StockPerformance \<Rightarrow> (exn + npfloat frame) \<times> StockPerformance" where
  "calc_sharpe_ratios self =
     (let sharpe_df = DataFrame ''return''
            (groupby_apply (\<lambda>g. sharpe_ratio (risk_free_rate self) (map return g))
               (groupby (daily_returns self)))
      in (set_columns sharpe_df [''sharpe_ratio''], self))"

section \<open>The order of first encounter\<close>

text \<open>
  The specification's order for the keys of a result, in its own words: the tickers in
  the order in which each is first encountered in the table. It is here to be compared
  with the index the methods produce.
\<close>

fun first_encountered :: "'a list \<Rightarrow> 'a list" where
  "first_encountered [] = []"
| "first_encountered (x # xs) = x # filter (\<lambda>y. y \<noteq> x) (first_encountered xs)"

section \<open>Calls in sequence\<close>





section \<open>Squared residuals\<close>

text \<open>
  What the specification has the regression minimise, in its own words: with
  \<open>y = return - risk_free_rate\<close> and \<open>x = benchmark_return - risk_free_rate\<close>, the
  sum over the rows of the squares of \<open>y - (alpha + beta * x)\<close>. It is here to be
  compared with what \<open>fit\<close> returns.
\<close>

definition squared_residuals :: "real \<Rightarrow> returns_row list \<Rightarrow> real \<Rightarrow> real \<Rightarrow> real" where
  "squared_residuals rf g alpha beta =
     (\<Sum>r\<leftarrow>g. ((return r - rf) - (alpha + beta * (bench_return r - rf)))\<^sup>2)"

section \<open>Examples\<close>

text \<open>
  A database relation and a benchmark file. Ticker \<open>X\<close> has the percentages
  \<open>1, -2, 3\<close> on days 1 to 3 and another one on day 9, ticker \<open>A\<close> has \<open>50\<close> and
  \<open>0\<close> on days 1 and 2, and \<open>Y\<close> has one row. \<open>X\<close> comes first in the relation.
\<close>

definition example_db :: "(int \<times> string \<times> real) list" where
  "example_db = [(1, ''X'', 1), (1, ''A'', 50), (1, ''Y'', 5), (2, ''X'', -2), (2, ''A'', 0),
     (3, ''X'', 3), (9, ''X'', 50)]"

definition example_bench :: "(int \<times> string \<times> real option) list" where
  "example_bench = [(1, ''SP50'', Some (2/100)), (2, ''SP50'', Some (-1/100)), (3, ''SP50'', Some (1/100))]"

text \<open>
  The analyzer for \<open>X\<close> and \<open>A\<close> over days 1 to 3, and the table it has: three days
  of returns \<open>0.01, -0.02, 0.03\<close> for \<open>X\<close>, two for \<open>A\<close>.
\<close>

definition example :: StockPerformance where
  "example = init [''X'', ''A''] 1 3 example_db example_bench"

definition example_rows :: "returns_row list" where
  "example_rows =
     [\<lparr>date = 1, ticker = ''X'', return = 1/100, benchmark = ''SP50'', bench_return = 2/100\<rparr>,
      \<lparr>date = 1, ticker = ''A'', return = 1/2, benchmark = ''SP50'', bench_return = 2/100\<rparr>,
      \<lparr>date = 2, ticker = ''X'', return = -2/100, benchmark = ''SP50'', bench_return = -1/100\<rparr>,
      \<lparr>date = 2, ticker = ''A'', return = 0, benchmark = ''SP50'', bench_return = -1/100\<rparr>,
      \<lparr>date = 3, ticker = ''X'', return = 3/100, benchmark = ''SP50'', bench_return = 1/100\<rparr>]"




text \<open>A benchmark file with the same return on each day.\<close>

definition const_bench :: "(int \<times> string \<times> real option) list" where
  "const_bench = [(1, ''SP50'', Some (1/100)), (2, ''SP50'', Some (1/100)), (3, ''SP50'', Some (1/100))]"

section \<open>Lookup in a frame built from a Series\<close>




lemma groupby_apply_groupby:
  "groupby_apply f (groupby df) =
     map (\<lambda>k. (k, f (filter (\<lambda>r. ticker r = k) df))) (sort (remdups (map ticker df)))"
  by (simp add: groupby_apply_def groupby_def comp_def)




section \<open>The frames the methods return\<close>

lemma calc_total_returns_frame:
  "calc_total_returns self =
     (Inr \<lparr>index = sort (remdups (map ticker (daily_returns self))),
           data = [(''total_return'',
              map (\<lambda>k. total_return (map return (filter (\<lambda>r. ticker r = k) (daily_returns self))))
                (sort (remdups (map ticker (daily_returns self)))))]\<rparr>, self)"
  by (simp add: calc_total_returns_def groupby_apply_groupby set_columns_def DataFrame_def comp_def)

lemma calc_cagrs_frame:
  assumes "interval self \<noteq> 0"
  shows "calc_cagrs self =
     (Inr \<lparr>index = sort (remdups (map ticker (daily_returns self))),
           data = [(''cagr'',
              map (\<lambda>k. np_subtract (np_power (np_add (Finite 1)
                      (total_return (map return (filter (\<lambda>r. ticker r = k) (daily_returns self)))))
                      (days_in_year self / real_of_int (interval self))) (Finite 1))
                (sort (remdups (map ticker (daily_returns self)))))]\<rparr>, self)"
  using assms
  by (simp add: calc_cagrs_def calc_total_returns_frame getitem_def truediv_def setitem_def
      getitem_list_def comp_def)

lemma calc_cagrs_zero:
  assumes "interval self = 0"
  shows "calc_cagrs self = (Inl ZeroDivisionError, self)"
  using assms
  by (simp add: calc_cagrs_def calc_total_returns_frame getitem_def truediv_def)

lemma loc_single:
  "loc \<lparr>index = ks, data = [(c, map f ks)]\<rparr> t c = (if t \<in> set ks then Some (f t) else None)"
  by (simp add: loc_def map_of_zip_map)

lemma example_record:
  "example = \<lparr>days_in_year = 365.25, risk_free_rate = 0.00007, tickers = [''X'', ''A''],
     start_date = 1, end_date = 3, interval = 3, daily_returns = example_rows\<rparr>"
  by (simp add: example_def example_rows_def init_def example_db_def example_bench_def
      fetchall_def merge_dropna_def)



lemma init_example: "init [''X''] 1 3 example_db example_bench =
   \<lparr>days_in_year = 365.25, risk_free_rate = 0.00007, tickers = [''X''], start_date = 1, end_date = 3,
     interval = 3, daily_returns = 
     [\<lparr>date = 1, ticker = ''X'', return = 1/100, benchmark = ''SP50'', bench_return = 2/100\<rparr>,
      \<lparr>date = 2, ticker = ''X'', return = -2/100, benchmark = ''SP50'', bench_return = -1/100\<rparr>,
      \<lparr>date = 3, ticker = ''X'', return = 3/100, benchmark = ''SP50'', bench_return = 1/100\<rparr>]\<rparr>"
  by (simp add: init_def example_db_def example_bench_def fetchall_def merge_dropna_def)



lemma example_totals:
  "fst (calc_total_returns example) =
     Inr \<lparr>index = [''A'', ''X''],
          data = [(''total_return'', [Finite (1 / 2), Finite (19494 / 1000000)])]\<rparr>"
  by (simp add: calc_total_returns_frame example_record example_rows_def total_return_def)

lemma fetchall_reversed: "ed < sd \<Longrightarrow> fetchall tks sd ed db = []"
  by (induction db) (auto simp: fetchall_def)

lemma init_rows_dates:
  assumes "daily_returns (init tks sd ed db bench) \<noteq> []"
  shows "sd \<le> ed"
proof (rule ccontr)
  assume "\<not> sd \<le> ed"
  then have "fetchall tks sd ed db = []" by (simp add: fetchall_reversed)
  then have "daily_returns (init tks sd ed db bench) = []"
    by (simp add: init_def merge_dropna_def)
  with assms show False by simp
qed

lemma init_interval_pos:
  assumes "daily_returns (init tks sd ed db bench) \<noteq> []"
  shows "0 < interval (init tks sd ed db bench)"
  using init_rows_dates [OF assms] by (simp add: init_def)




lemma apply_each_Inr:
  assumes "\<And>k. k \<in> set ks \<Longrightarrow> f (g k) = Inr (h k)"
  shows "apply_each f (map (\<lambda>k. (k, g k)) ks) = Inr (map (\<lambda>k. (k, h k)) ks)"
  using assms by (induction ks) simp_all

lemma fit_Inr: "X \<noteq> [] \<Longrightarrow> length X = length y \<Longrightarrow> fit X y = Inr (projr (fit X y))"
  by (simp add: fit_def Let_def)

lemma capm_regression_alpha:
  assumes "g \<noteq> []"
  shows "capm_regression self g p b ''alpha'' =
    Inr (Some (Finite (intercept (projr (fit (map (\<lambda>r. bench_return r - risk_free_rate self) g)
                                             (map (\<lambda>r. return r - risk_free_rate self) g))))))"
proof -
  have "map (\<lambda>r. bench_return r - risk_free_rate self) g \<noteq> []" using assms by simp
  then obtain reg where "fit (map (\<lambda>r. bench_return r - risk_free_rate self) g)
      (map (\<lambda>r. return r - risk_free_rate self) g) = Inr reg"
    using fit_Inr [of "map (\<lambda>r. bench_return r - risk_free_rate self) g"
        "map (\<lambda>r. return r - risk_free_rate self) g"] by auto
  then show ?thesis
    by (simp add: capm_regression_def)
qed

lemma capm_regression_beta:
  assumes "g \<noteq> []"
  shows "capm_regression self g p b ''beta'' =
    Inr (Some (Finite (coef (projr (fit (map (\<lambda>r. bench_return r - risk_free_rate self) g)
                                        (map (\<lambda>r. return r - risk_free_rate self) g))))))"
proof -
  have "map (\<lambda>r. bench_return r - risk_free_rate self) g \<noteq> []" using assms by simp
  then obtain reg where "fit (map (\<lambda>r. bench_return r - risk_free_rate self) g)
      (map (\<lambda>r. return r - risk_free_rate self) g) = Inr reg"
    using fit_Inr [of "map (\<lambda>r. bench_return r - risk_free_rate self) g"
        "map (\<lambda>r. return r - risk_free_rate self) g"] by auto
  then show ?thesis
    by (simp add: capm_regression_def)
qed

lemma group_nonempty:
  assumes "k \<in> set (sort (remdups (map ticker df)))"
  shows "filter (\<lambda>r. ticker r = k) df \<noteq> []"
proof -
  from assms obtain r where "r \<in> set df" "ticker r = k" by auto
  then show ?thesis by (auto simp: filter_empty_conv)
qed

lemma groupby_eq_Nil: "groupby df = [] \<longleftrightarrow> df = []"
proof -
  have "groupby df = [] \<longleftrightarrow> set (sort (remdups (map ticker df))) = {}"
    unfolding groupby_def by (simp only: map_is_Nil_conv set_empty)
  also have "\<dots> \<longleftrightarrow> df = []" by simp
  finally show ?thesis .
qed

lemma calc_alphas_frame:
  assumes "daily_returns self \<noteq> []"
  shows "calc_alphas self =
     (Inr \<lparr>index = sort (remdups (map ticker (daily_returns self))),
           data = [(''capm_alpha'',
              map (\<lambda>k. Some (Finite (intercept (projr (fit
                     (map (\<lambda>r. bench_return r - risk_free_rate self)
                        (filter (\<lambda>r. ticker r = k) (daily_returns self)))
                     (map (\<lambda>r. return r - risk_free_rate self)
                        (filter (\<lambda>r. ticker r = k) (daily_returns self))))))))
                (sort (remdups (map ticker (daily_returns self)))))]\<rparr>, self)"
proof -
  let ?ks = "sort (remdups (map ticker (daily_returns self)))"
  let ?g = "\<lambda>k. filter (\<lambda>r. ticker r = k) (daily_returns self)"
  have g: "groupby (daily_returns self) = map (\<lambda>k. (k, ?g k)) ?ks"
    by (simp add: groupby_def)
  have ne: "map (\<lambda>k. (k, ?g k)) ?ks \<noteq> []"
    using assms groupby_eq_Nil [of "daily_returns self"] unfolding g by simp
  have "apply_each (\<lambda>g. capm_regression self g ''return'' ''bench_return'' ''alpha'')
          (map (\<lambda>k. (k, ?g k)) ?ks)
      = Inr (map (\<lambda>k. (k, Some (Finite (intercept (projr (fit
                     (map (\<lambda>r. bench_return r - risk_free_rate self) (?g k))
                     (map (\<lambda>r. return r - risk_free_rate self) (?g k)))))))) ?ks)"
    by (rule apply_each_Inr) (simp only: capm_regression_alpha [OF group_nonempty])
  then show ?thesis
    using ne unfolding calc_alphas_def g Let_def DataFrameGroupBy_apply_def
    by (simp add: set_columns_def DataFrame_def comp_def)
qed

lemma calc_betas_frame:
  assumes "daily_returns self \<noteq> []"
  shows "calc_betas self =
     (Inr \<lparr>index = sort (remdups (map ticker (daily_returns self))),
           data = [(''capm_beta'',
              map (\<lambda>k. Some (Finite (coef (projr (fit
                     (map (\<lambda>r. bench_return r - risk_free_rate self)
                        (filter (\<lambda>r. ticker r = k) (daily_returns self)))
                     (map (\<lambda>r. return r - risk_free_rate self)
                        (filter (\<lambda>r. ticker r = k) (daily_returns self))))))))
                (sort (remdups (map ticker (daily_returns self)))))]\<rparr>, self)"
proof -
  let ?ks = "sort (remdups (map ticker (daily_returns self)))"
  let ?g = "\<lambda>k. filter (\<lambda>r. ticker r = k) (daily_returns self)"
  have g: "groupby (daily_returns self) = map (\<lambda>k. (k, ?g k)) ?ks"
    by (simp add: groupby_def)
  have ne: "map (\<lambda>k. (k, ?g k)) ?ks \<noteq> []"
    using assms groupby_eq_Nil [of "daily_returns self"] unfolding g by simp
  have "apply_each (\<lambda>g. capm_regression self g ''return'' ''bench_return'' ''beta'')
          (map (\<lambda>k. (k, ?g k)) ?ks)
      = Inr (map (\<lambda>k. (k, Some (Finite (coef (projr (fit
                     (map (\<lambda>r. bench_return r - risk_free_rate self) (?g k))
                     (map (\<lambda>r. return r - risk_free_rate self) (?g k)))))))) ?ks)"
    by (rule apply_each_Inr) (simp only: capm_regression_beta [OF group_nonempty])
  then show ?thesis
    using ne unfolding calc_betas_def g Let_def DataFrameGroupBy_apply_def
    by (simp add: set_columns_def DataFrame_def comp_def)
qed

lemma calc_alphas_empty:
  assumes "daily_returns self = []"
  shows "calc_alphas self = (Inl ValueError, self)"
  using assms by (simp add: calc_alphas_def groupby_def DataFrameGroupBy_apply_def set_columns_def)

lemma calc_betas_empty:
  assumes "daily_returns self = []"
  shows "calc_betas self = (Inl ValueError, self)"
  using assms by (simp add: calc_betas_def groupby_def DataFrameGroupBy_apply_def set_columns_def)

lemma calc_sharpe_ratios_frame:
  "calc_sharpe_ratios self =
     (Inr \<lparr>index = sort (remdups (map ticker (daily_returns self))),
           data = [(''sharpe_ratio'',
              map (\<lambda>k. sharpe_ratio (risk_free_rate self)
                     (map return (filter (\<lambda>r. ticker r = k) (daily_returns self))))
                (sort (remdups (map ticker (daily_returns self)))))]\<rparr>, self)"
  by (simp add: calc_sharpe_ratios_def groupby_apply_groupby set_columns_def DataFrame_def comp_def)


lemma sum_list_const:
  fixes x :: "real list"
  assumes "\<forall>v \<in> set x. v = c"
  shows "sum_list x = real (length x) * c"
  using assms by (induction x) (simp_all add: algebra_simps)

lemma sum_squares_zero_iff:
  fixes x :: "real list"
  shows "sum_list (map (\<lambda>v. (v - m)\<^sup>2) x) = 0 \<longleftrightarrow> (\<forall>v \<in> set x. v = m)"
proof -
  have "sum_list (map (\<lambda>v. (v - m)\<^sup>2) x) = 0
      \<longleftrightarrow> (\<forall>q \<in> set (map (\<lambda>v. (v - m)\<^sup>2) x). q = 0)"
    by (rule sum_list_nonneg_eq_0_iff) auto
  then show ?thesis by simp
qed



section \<open>The fitted line\<close>

lemma fit_map:
  fixes fx fy :: "'a \<Rightarrow> real"
  assumes "g \<noteq> []"
  shows "fit (map fx g) (map fy g) =
    Inr \<lparr>coef =
           (if (\<Sum>r\<leftarrow>g. (fx r - (\<Sum>r\<leftarrow>g. fx r) / real (length g))\<^sup>2) = 0 then 0
            else (\<Sum>r\<leftarrow>g. (fx r - (\<Sum>r\<leftarrow>g. fx r) / real (length g))
                        * (fy r - (\<Sum>r\<leftarrow>g. fy r) / real (length g)))
                 / (\<Sum>r\<leftarrow>g. (fx r - (\<Sum>r\<leftarrow>g. fx r) / real (length g))\<^sup>2)),
         intercept = (\<Sum>r\<leftarrow>g. fy r) / real (length g) - (\<Sum>r\<leftarrow>g. fx r) / real (length g) *
           (if (\<Sum>r\<leftarrow>g. (fx r - (\<Sum>r\<leftarrow>g. fx r) / real (length g))\<^sup>2) = 0 then 0
            else (\<Sum>r\<leftarrow>g. (fx r - (\<Sum>r\<leftarrow>g. fx r) / real (length g))
                        * (fy r - (\<Sum>r\<leftarrow>g. fy r) / real (length g)))
                 / (\<Sum>r\<leftarrow>g. (fx r - (\<Sum>r\<leftarrow>g. fx r) / real (length g))\<^sup>2))\<rparr>"
  using assms
  by (simp add: fit_def Let_def zip_map_map zip_same_conv_map comp_def)

lemma sum_squares_fun_zero_iff:
  fixes f :: "'a \<Rightarrow> real"
  shows "(\<Sum>r\<leftarrow>g. (f r - m)\<^sup>2) = 0 \<longleftrightarrow> (\<forall>r \<in> set g. f r = m)"
proof -
  have "(\<Sum>r\<leftarrow>g. (f r - m)\<^sup>2) = 0 \<longleftrightarrow> (\<forall>v \<in> set (map f g). v = m)"
    using sum_squares_zero_iff [of m "map f g"] by (simp add: comp_def)
  then show ?thesis by simp
qed

lemma fit_residual_split:
  fixes fx fy :: "'a \<Rightarrow> real"
  assumes "g \<noteq> []" and "fit (map fx g) (map fy g) = Inr reg"
  shows "(\<Sum>r\<leftarrow>g. (fy r - (a' + b' * fx r))\<^sup>2)
       = (\<Sum>r\<leftarrow>g. (fy r - (intercept reg + coef reg * fx r))\<^sup>2)
       + (\<Sum>r\<leftarrow>g. ((intercept reg - a') + (coef reg - b') * fx r)\<^sup>2)"
proof -
  define n where "n = real (length g)"
  define xbar where "xbar = (\<Sum>r\<leftarrow>g. fx r) / n"
  define ybar where "ybar = (\<Sum>r\<leftarrow>g. fy r) / n"
  define Sxx where "Sxx = (\<Sum>r\<leftarrow>g. (fx r - xbar)\<^sup>2)"
  define Sxy where "Sxy = (\<Sum>r\<leftarrow>g. (fx r - xbar) * (fy r - ybar))"
  define b where "b = (if Sxx = 0 then 0 else Sxy / Sxx)"
  define a where "a = ybar - xbar * b"
  define e where "e = (\<lambda>r. fy r - (a + b * fx r))"
  have n: "0 < n" using assms(1) by (simp add: n_def)
  have "fit (map fx g) (map fy g) = Inr \<lparr>coef = b, intercept = a\<rparr>"
    unfolding a_def b_def Sxx_def Sxy_def xbar_def ybar_def n_def
    using assms(1) by (rule fit_map)
  then have reg: "reg = \<lparr>coef = b, intercept = a\<rparr>"
    using assms(2) by simp
  have sx: "(\<Sum>r\<leftarrow>g. fx r) = n * xbar" and sy: "(\<Sum>r\<leftarrow>g. fy r) = n * ybar"
    using n by (simp_all add: xbar_def ybar_def)
  have dx: "(\<Sum>r\<leftarrow>g. fx r - xbar) = 0"
    by (simp add: sum_list_subtractf sx sum_list_triv n_def)
  have dy: "(\<Sum>r\<leftarrow>g. fy r - ybar) = 0"
    by (simp add: sum_list_subtractf sy sum_list_triv n_def)
  have e_eq: "e r = (fy r - ybar) - b * (fx r - xbar)" for r
    by (simp add: e_def a_def algebra_simps)
  have "(\<Sum>r\<leftarrow>g. e r) = (\<Sum>r\<leftarrow>g. fy r - ybar) - b * (\<Sum>r\<leftarrow>g. fx r - xbar)"
    unfolding e_eq sum_list_subtractf [of "\<lambda>r. fy r - ybar" "\<lambda>r. b * (fx r - xbar)"]
      sum_list_const_mult ..
  then have N1: "(\<Sum>r\<leftarrow>g. e r) = 0"
    unfolding dx dy by simp
  have key: "Sxy - b * Sxx = 0"
  proof (cases "Sxx = 0")
    case True
    then have "\<forall>r \<in> set g. fx r = xbar"
      unfolding Sxx_def sum_squares_fun_zero_iff .
    then have "Sxy = 0"
      unfolding Sxy_def by (induction g) simp_all
    with True show ?thesis by simp
  next
    case False
    then show ?thesis by (simp add: b_def)
  qed
  have "(\<Sum>r\<leftarrow>g. e r * (fx r - xbar))
      = (\<Sum>r\<leftarrow>g. (fx r - xbar) * (fy r - ybar) - b * (fx r - xbar)\<^sup>2)"
    unfolding e_eq by (simp add: algebra_simps power2_eq_square)
  also have "\<dots> = Sxy - b * Sxx"
    unfolding Sxy_def Sxx_def
      sum_list_subtractf [of "\<lambda>r. (fx r - xbar) * (fy r - ybar)" "\<lambda>r. b * (fx r - xbar)\<^sup>2"]
      sum_list_const_mult ..
  finally have N2: "(\<Sum>r\<leftarrow>g. e r * (fx r - xbar)) = 0" using key by simp
  have "(\<Sum>r\<leftarrow>g. e r * fx r) = (\<Sum>r\<leftarrow>g. e r * (fx r - xbar) + xbar * e r)"
    by (simp add: algebra_simps)
  also have "\<dots> = (\<Sum>r\<leftarrow>g. e r * (fx r - xbar)) + xbar * (\<Sum>r\<leftarrow>g. e r)"
    unfolding sum_list_addf [of "\<lambda>r. e r * (fx r - xbar)" "\<lambda>r. xbar * e r"]
      sum_list_const_mult ..
  also have "\<dots> = 0"
    unfolding N1 N2 by simp
  finally have N3: "(\<Sum>r\<leftarrow>g. e r * fx r) = 0" .
  have pt: "(fy r - (a' + b' * fx r))\<^sup>2
      = (e r)\<^sup>2 + (2 * (a - a') * e r + 2 * (b - b') * (e r * fx r))
        + ((a - a') + (b - b') * fx r)\<^sup>2" for r
    by (simp add: e_def power2_eq_square algebra_simps)
  have "(\<Sum>r\<leftarrow>g. (fy r - (a' + b' * fx r))\<^sup>2)
      = (\<Sum>r\<leftarrow>g. (e r)\<^sup>2) + (2 * (a - a') * (\<Sum>r\<leftarrow>g. e r) + 2 * (b - b') * (\<Sum>r\<leftarrow>g. e r * fx r))
        + (\<Sum>r\<leftarrow>g. ((a - a') + (b - b') * fx r)\<^sup>2)"
    unfolding pt
      sum_list_addf [of "\<lambda>r. (e r)\<^sup>2 + (2 * (a - a') * e r + 2 * (b - b') * (e r * fx r))"
        "\<lambda>r. ((a - a') + (b - b') * fx r)\<^sup>2"]
      sum_list_addf [of "\<lambda>r. (e r)\<^sup>2" "\<lambda>r. 2 * (a - a') * e r + 2 * (b - b') * (e r * fx r)"]
      sum_list_addf [of "\<lambda>r. 2 * (a - a') * e r" "\<lambda>r. 2 * (b - b') * (e r * fx r)"]
      sum_list_const_mult ..
  then show ?thesis
    unfolding N1 N3 reg by (simp add: e_def)
qed

lemma init_single: "init [''X''] 1 1 example_db example_bench =
   \<lparr>days_in_year = 365.25, risk_free_rate = 0.00007, tickers = [''X''], start_date = 1, end_date = 1,
     interval = 1, daily_returns = 
     [\<lparr>date = 1, ticker = ''X'', return = 1/100, benchmark = ''SP50'', bench_return = 2/100\<rparr>]\<rparr>"
  by (simp add: init_def example_db_def example_bench_def fetchall_def merge_dropna_def)

lemma init_single2: "init [''X''] 2 2 example_db example_bench =
   \<lparr>days_in_year = 365.25, risk_free_rate = 0.00007, tickers = [''X''], start_date = 2, end_date = 2,
     interval = 1, daily_returns = 
     [\<lparr>date = 2, ticker = ''X'', return = -2/100, benchmark = ''SP50'', bench_return = -1/100\<rparr>]\<rparr>"
  by (simp add: init_def example_db_def example_bench_def fetchall_def merge_dropna_def)

lemma init_const: "init [''X''] 1 3 example_db const_bench =
   \<lparr>days_in_year = 365.25, risk_free_rate = 0.00007, tickers = [''X''], start_date = 1, end_date = 3,
     interval = 3, daily_returns = 
     [\<lparr>date = 1, ticker = ''X'', return = 1/100, benchmark = ''SP50'', bench_return = 1/100\<rparr>,
      \<lparr>date = 2, ticker = ''X'', return = -2/100, benchmark = ''SP50'', bench_return = 1/100\<rparr>,
      \<lparr>date = 3, ticker = ''X'', return = 3/100, benchmark = ''SP50'', bench_return = 1/100\<rparr>]\<rparr>"
  by (simp add: init_def example_db_def const_bench_def fetchall_def merge_dropna_def)

lemma single_row: "g \<noteq> [] \<Longrightarrow> length g < 2 \<Longrightarrow> \<exists>r0. g = [r0]"
  by (cases g) (auto simp: less_Suc_eq)

lemma fit_degenerate:
  fixes fx fy :: "'a \<Rightarrow> real"
  assumes "g \<noteq> []" and "\<forall>r \<in> set g. \<forall>r' \<in> set g. fx r = fx r'"
  shows "fit (map fx g) (map fy g) =
     Inr \<lparr>coef = 0, intercept = (\<Sum>r\<leftarrow>g. fy r) / real (length g)\<rparr>"
proof -
  obtain c where c: "c \<in> set g" using assms(1) by (cases g) auto
  have all: "\<forall>v \<in> set (map fx g). v = fx c"
  proof
    fix v assume "v \<in> set (map fx g)"
    then obtain r where "r \<in> set g" and "v = fx r" by auto
    with assms(2) c show "v = fx c" by blast
  qed
  have "sum_list (map fx g) = real (length (map fx g)) * fx c"
    using all by (rule sum_list_const)
  then have m: "(\<Sum>r\<leftarrow>g. fx r) / real (length g) = fx c"
    using assms(1) by simp
  have "(\<Sum>r\<leftarrow>g. (fx r - (\<Sum>r\<leftarrow>g. fx r) / real (length g))\<^sup>2) = 0"
    unfolding sum_squares_fun_zero_iff m using assms(2) c by blast
  then show ?thesis
    unfolding fit_map [OF assms(1)] by simp
qed

lemma mean_excess:
  fixes f :: "'a \<Rightarrow> real"
  assumes "g \<noteq> []"
  shows "(\<Sum>r\<leftarrow>g. f r - c) / real (length g) = (\<Sum>r\<leftarrow>g. f r) / real (length g) - c"
  using assms by (simp add: sum_list_subtractf sum_list_triv diff_divide_distrib)



lemma example_fit:
  "fit (map (\<lambda>r. bench_return r - 7 / 100000)
         [\<lparr>date = 1, ticker = ''X'', return = 1/100, benchmark = ''SP50'', bench_return = 2/100\<rparr>,
          \<lparr>date = 2, ticker = ''X'', return = -2/100, benchmark = ''SP50'', bench_return = -1/100\<rparr>,
          \<lparr>date = 3, ticker = ''X'', return = 3/100, benchmark = ''SP50'', bench_return = 1/100\<rparr>])
       (map (\<lambda>r. return r - 7 / 100000)
         [\<lparr>date = 1, ticker = ''X'', return = 1/100, benchmark = ''SP50'', bench_return = 2/100\<rparr>,
          \<lparr>date = 2, ticker = ''X'', return = -2/100, benchmark = ''SP50'', bench_return = -1/100\<rparr>,
          \<lparr>date = 3, ticker = ''X'', return = 3/100, benchmark = ''SP50'', bench_return = 1/100\<rparr>])
   = Inr \<lparr>coef = 17 / 14, intercept = - 1979 / 1400000\<rparr>"
  by (simp add: fit_def power2_eq_square)

section \<open>The analyzer after a call\<close>








section \<open>Total returns\<close>



section \<open>Compound annual growth rate\<close>

text \<open>
  C2. For an analyzer built by \<open>__init__\<close> from the dates \<open>sd\<close> and \<open>ed\<close> and
  every ticker \<open>t\<close> of its table: \<open>calc_cagrs\<close> returns a frame whose column
  \<open>cagr\<close> holds at \<open>t\<close> the value \<open>(1 + tr) ** (365.25 / (ed - sd + 1)) - 1\<close>,
  where \<open>tr\<close> is the value \<open>calc_total_returns\<close> gives for \<open>t\<close>. The exponent is
  made of the two dates alone, whatever the number of rows of \<open>t\<close>. For a positive
  \<open>1 + tr\<close> the power is the real power. (A table with a ticker has a row between the
  two dates, so the interval is positive.)
\<close>

theorem calc_cagrs_formula:
  assumes "self = init tks sd ed db bench"
    and "t \<in> ticker ` set (daily_returns self)"
  shows "\<exists>totals cagrs tr.
           fst (calc_total_returns self) = Inr totals
         \<and> loc totals t ''total_return'' = Some (Finite tr)
         \<and> fst (calc_cagrs self) = Inr cagrs
         \<and> loc cagrs t ''cagr'' =
             Some (np_subtract (np_power (Finite (1 + tr)) (365.25 / real_of_int (ed - sd + 1))) (Finite 1))
         \<and> (0 < 1 + tr \<longrightarrow> loc cagrs t ''cagr'' =
             Some (Finite ((1 + tr) powr (365.25 / real_of_int (ed - sd + 1)) - 1)))"
proof -
  let ?ks = "sort (remdups (map ticker (daily_returns self)))"
  let ?tr = "prod_list (map (\<lambda>v. 1 + v) (map return (filter (\<lambda>r. ticker r = t) (daily_returns self)))) - 1"
  have iv: "interval self = ed - sd + 1" and diy: "days_in_year self = 365.25"
    using assms(1) by (simp_all add: init_def)
  have "daily_returns self \<noteq> []" using assms(2) by auto
  then have "0 < interval self"
    unfolding assms(1) by (rule init_interval_pos)
  then have nz: "interval self \<noteq> 0" and nz': "ed - sd + 1 \<noteq> 0"
    using iv by simp_all
  have mem: "t \<in> set ?ks" using assms(2) by simp
  have 1: "loc (\<lparr>index = ?ks, data = [(''total_return'',
              map (\<lambda>k. total_return (map return (filter (\<lambda>r. ticker r = k) (daily_returns self)))) ?ks)]\<rparr>)
             t ''total_return'' = Some (Finite ?tr)"
    using mem by (simp add: loc_single total_return_def)
  have 2: "loc (\<lparr>index = ?ks, data = [(''cagr'',
              map (\<lambda>k. np_subtract (np_power (np_add (Finite 1)
                      (total_return (map return (filter (\<lambda>r. ticker r = k) (daily_returns self)))))
                      (days_in_year self / real_of_int (interval self))) (Finite 1)) ?ks)]\<rparr>)
             t ''cagr'' = Some (np_subtract (np_power (Finite (1 + ?tr))
                 (365.25 / real_of_int (ed - sd + 1))) (Finite 1))"
    using mem by (simp add: loc_single total_return_def iv diy)
  have 3: "np_subtract (np_power (Finite (1 + ?tr)) (365.25 / real_of_int (ed - sd + 1))) (Finite 1)
      = Finite ((1 + ?tr) powr (365.25 / real_of_int (ed - sd + 1)) - 1)" if "0 < 1 + ?tr"
    using that nz' by (simp add: np_subtract_def)
  have r1: "fst (calc_total_returns self) = Inr \<lparr>index = ?ks, data = [(''total_return'',
              map (\<lambda>k. total_return (map return (filter (\<lambda>r. ticker r = k) (daily_returns self)))) ?ks)]\<rparr>"
    by (simp add: calc_total_returns_frame)
  have r2: "fst (calc_cagrs self) = Inr \<lparr>index = ?ks, data = [(''cagr'',
              map (\<lambda>k. np_subtract (np_power (np_add (Finite 1)
                      (total_return (map return (filter (\<lambda>r. ticker r = k) (daily_returns self)))))
                      (days_in_year self / real_of_int (interval self))) (Finite 1)) ?ks)]\<rparr>"
    by (simp add: calc_cagrs_frame [OF nz])
  show ?thesis
    using r1 1 r2 2 3 by (intro exI conjI impI) (assumption | simp only:)+
qed

theorem calc_cagrs_formula_witness:
  "''X'' \<in> ticker ` set (daily_returns (init [''X''] 1 3 example_db example_bench))
   \<and> (0 :: real) < 1 + 19494 / 1000000
   \<and> (\<exists>totals cagrs.
         fst (calc_total_returns (init [''X''] 1 3 example_db example_bench)) = Inr totals
       \<and> loc totals ''X'' ''total_return'' = Some (Finite (19494 / 1000000))
       \<and> fst (calc_cagrs (init [''X''] 1 3 example_db example_bench)) = Inr cagrs
       \<and> loc cagrs ''X'' ''cagr'' = Some (Finite ((1 + 19494 / 1000000) powr (365.25 / 3) - 1)))"
proof -
  let ?self = "init [''X''] 1 3 example_db example_bench"
  have b: "''X'' \<in> ticker ` set (daily_returns ?self)"
    by (simp add: init_example)
  obtain totals cagrs tr where
    t1: "fst (calc_total_returns ?self) = Inr totals"
    and t2: "loc totals ''X'' ''total_return'' = Some (Finite tr)"
    and c1: "fst (calc_cagrs ?self) = Inr cagrs"
    and c2: "0 < 1 + tr \<longrightarrow> loc cagrs ''X'' ''cagr'' =
             Some (Finite ((1 + tr) powr (365.25 / real_of_int (3 - 1 + 1)) - 1))"
    using calc_cagrs_formula [OF refl b] by blast
  have "fst (calc_total_returns ?self) =
      Inr \<lparr>index = [''X''], data = [(''total_return'', [Finite (19494 / 1000000)])]\<rparr>"
    by (simp add: calc_total_returns_frame init_example total_return_def)
  with t1 have "totals = \<lparr>index = [''X''], data = [(''total_return'', [Finite (19494 / 1000000)])]\<rparr>"
    by simp
  with t2 have tr: "tr = 19494 / 1000000"
    by (simp add: loc_def)
  have c3: "loc cagrs ''X'' ''cagr'' = Some (Finite ((1 + 19494 / 1000000) powr (365.25 / 3) - 1))"
    using c2 unfolding tr by simp
  have pos: "(0 :: real) < 1 + 19494 / 1000000" by simp
  show ?thesis
    using b pos t1 t2 c1 c3 unfolding tr by (intro conjI exI)
qed




section \<open>Construction\<close>

text \<open>
  C6, as stated, fails: with the start on day 3 and the end on day 1 the constructor
  returns an analyzer, with the interval \<open>-1\<close> and an empty table, and
  \<open>calc_cagrs\<close> computes with it and returns a frame.
\<close>

theorem init_reversed_dates:
  "init [''X''] 3 1 example_db example_bench =
     \<lparr>days_in_year = 365.25, risk_free_rate = 0.00007, tickers = [''X''],
      start_date = 3, end_date = 1, interval = - 1, daily_returns = []\<rparr>
   \<and> fst (calc_cagrs (init [''X''] 3 1 example_db example_bench)) =
     Inr \<lparr>index = [], data = [(''cagr'', [])]\<rparr>"
proof -
  have 1: "init [''X''] 3 1 example_db example_bench =
     \<lparr>days_in_year = 365.25, risk_free_rate = 0.00007, tickers = [''X''],
      start_date = 3, end_date = 1, interval = - 1, daily_returns = []\<rparr>"
    by (simp add: init_def example_db_def example_bench_def fetchall_def merge_dropna_def)
  show ?thesis
    unfolding 1 by (simp add: calc_cagrs_frame)
qed

text \<open>
  C6, amended. The constructor checks no date range: for every pair of dates it stores
  them and the interval \<open>end_date - start_date + 1\<close>. For an end before the start the
  interval is zero or negative and the table is empty, since the query selects no row.
\<close>

theorem init_no_date_check:
  "interval (init tks sd ed db bench) = ed - sd + 1
   \<and> start_date (init tks sd ed db bench) = sd
   \<and> end_date (init tks sd ed db bench) = ed
   \<and> (ed < sd \<longrightarrow> interval (init tks sd ed db bench) \<le> 0
                   \<and> daily_returns (init tks sd ed db bench) = [])"
  by (simp add: init_def fetchall_reversed merge_dropna_def)

theorem init_no_date_check_witness:
  "(2::int) < 9
   \<and> interval (init [''X''] 9 2 example_db example_bench) = - 6
   \<and> interval (init [''X''] 9 2 example_db example_bench) \<le> 0
   \<and> daily_returns (init [''X''] 9 2 example_db example_bench) = []"
  using init_no_date_check [of "[''X'']" 9 2 example_db example_bench] by simp

section \<open>The keys of the results\<close>

text \<open>
  C7, as stated, fails: the table of the example has \<open>X\<close> in its first row and \<open>A\<close>
  in its second, and the result lists \<open>A\<close> before \<open>X\<close>.
\<close>

theorem index_not_first_encountered:
  "fst (calc_total_returns example) =
     Inr \<lparr>index = [''A'', ''X''],
          data = [(''total_return'', [Finite (1 / 2), Finite (19494 / 1000000)])]\<rparr>
   \<and> first_encountered (map ticker (daily_returns example)) = [''X'', ''A'']"
  by (simp add: example_totals) (simp add: example_record example_rows_def)

text \<open>
  C7, amended. For an analyzer built by \<open>__init__\<close> whose table is not empty, the five
  methods return frames with one and the same index: the distinct tickers of the table in
  ascending order, the order \<open>groupby\<close> gives its keys.
\<close>

theorem results_share_sorted_index:
  assumes "self = init tks sd ed db bench" and "daily_returns self \<noteq> []"
  shows "\<exists>tr cg al be sh.
       fst (calc_total_returns self) = Inr tr
     \<and> fst (calc_cagrs self) = Inr cg
     \<and> fst (calc_alphas self) = Inr al
     \<and> fst (calc_betas self) = Inr be
     \<and> fst (calc_sharpe_ratios self) = Inr sh
     \<and> index tr = sort (remdups (map ticker (daily_returns self)))
     \<and> index cg = index tr \<and> index al = index tr \<and> index be = index tr \<and> index sh = index tr
     \<and> set (index tr) = ticker ` set (daily_returns self)
     \<and> distinct (index tr) \<and> sorted (index tr)"
proof -
  have "0 < interval self"
    using assms(2) unfolding assms(1) by (rule init_interval_pos)
  then have nz: "interval self \<noteq> 0" by simp
  show ?thesis
    unfolding calc_total_returns_frame calc_cagrs_frame [OF nz] calc_alphas_frame [OF assms(2)]
      calc_betas_frame [OF assms(2)] calc_sharpe_ratios_frame
    by simp
qed

theorem results_share_sorted_index_witness:
  "daily_returns example \<noteq> []
   \<and> (\<exists>tr cg al be sh.
       fst (calc_total_returns example) = Inr tr
     \<and> fst (calc_cagrs example) = Inr cg
     \<and> fst (calc_alphas example) = Inr al
     \<and> fst (calc_betas example) = Inr be
     \<and> fst (calc_sharpe_ratios example) = Inr sh
     \<and> index tr = [''A'', ''X'']
     \<and> index cg = [''A'', ''X''] \<and> index al = [''A'', ''X''] \<and> index be = [''A'', ''X'']
     \<and> index sh = [''A'', ''X''])"
proof -
  have a: "daily_returns example \<noteq> []"
    by (simp add: example_record example_rows_def)
  have k: "sort (remdups (map ticker (daily_returns example))) = [''A'', ''X'']"
    by (simp add: example_record example_rows_def)
  from results_share_sorted_index [OF example_def a] show ?thesis
    unfolding k using a by metis
qed

section \<open>Sharpe ratios\<close>




section \<open>CAPM alpha and beta\<close>

text \<open>
  C3. For a ticker \<open>t\<close> with at least two rows, not all with the same benchmark
  return: \<open>calc_alphas\<close> holds at \<open>t\<close> the intercept and \<open>calc_betas\<close> the
  coefficient of one and the same \<open>fit\<close>, that of \<open>return - risk_free_rate\<close> on
  \<open>bench_return - risk_free_rate\<close> over the rows of \<open>t\<close>; and that pair is the
  least-squares line: its sum of squared residuals is the least one, and no other pair
  reaches it.
\<close>

theorem capm_alpha_beta_shared_fit:
  assumes "t \<in> ticker ` set (daily_returns self)"
    and "g = filter (\<lambda>r. ticker r = t) (daily_returns self)"
    and "2 \<le> length g"
    and "\<exists>r \<in> set g. \<exists>r' \<in> set g. bench_return r \<noteq> bench_return r'"
  shows "\<exists>alphas betas reg.
      fit (map (\<lambda>r. bench_return r - risk_free_rate self) g)
          (map (\<lambda>r. return r - risk_free_rate self) g) = Inr reg
    \<and> fst (calc_alphas self) = Inr alphas
    \<and> loc alphas t ''capm_alpha'' = Some (Some (Finite (intercept reg)))
    \<and> fst (calc_betas self) = Inr betas
    \<and> loc betas t ''capm_beta'' = Some (Some (Finite (coef reg)))
    \<and> (\<forall>a b. squared_residuals (risk_free_rate self) g (intercept reg) (coef reg)
               \<le> squared_residuals (risk_free_rate self) g a b)
    \<and> (\<forall>a b. squared_residuals (risk_free_rate self) g a b
                = squared_residuals (risk_free_rate self) g (intercept reg) (coef reg)
               \<longrightarrow> a = intercept reg \<and> b = coef reg)"
proof -
  let ?ks = "sort (remdups (map ticker (daily_returns self)))"
  let ?x = "\<lambda>r. bench_return r - risk_free_rate self"
  let ?y = "\<lambda>r. return r - risk_free_rate self"
  let ?fit = "\<lambda>k. projr (fit (map ?x (filter (\<lambda>r. ticker r = k) (daily_returns self)))
                              (map ?y (filter (\<lambda>r. ticker r = k) (daily_returns self))))"
  have mem: "t \<in> set ?ks" using assms(1) by simp
  then have ne: "g \<noteq> []" unfolding assms(2) by (rule group_nonempty)
  have tab: "daily_returns self \<noteq> []" using assms(1) by auto
  obtain reg where reg: "fit (map ?x g) (map ?y g) = Inr reg"
    using fit_Inr [of "map ?x g" "map ?y g"] ne by auto
  have split: "squared_residuals (risk_free_rate self) g a b
      = squared_residuals (risk_free_rate self) g (intercept reg) (coef reg)
        + (\<Sum>r\<leftarrow>g. ((intercept reg - a) + (coef reg - b) * ?x r)\<^sup>2)" for a b
    unfolding squared_residuals_def by (rule fit_residual_split [OF ne reg])
  have least: "squared_residuals (risk_free_rate self) g (intercept reg) (coef reg)
      \<le> squared_residuals (risk_free_rate self) g a b" for a b
  proof -
    have "0 \<le> (\<Sum>r\<leftarrow>g. ((intercept reg - a) + (coef reg - b) * ?x r)\<^sup>2)"
      by (rule sum_list_nonneg) auto
    then show ?thesis unfolding split [of a b] by simp
  qed
  have unique: "a = intercept reg \<and> b = coef reg"
    if eq: "squared_residuals (risk_free_rate self) g a b
        = squared_residuals (risk_free_rate self) g (intercept reg) (coef reg)" for a b
  proof -
    have "(\<Sum>r\<leftarrow>g. ((intercept reg - a) + (coef reg - b) * ?x r)\<^sup>2) = 0"
      using eq unfolding split [of a b] by simp
    then have "(\<Sum>r\<leftarrow>g. (((intercept reg - a) + (coef reg - b) * ?x r) - 0)\<^sup>2) = 0"
      by simp
    then have z: "\<forall>r \<in> set g. (intercept reg - a) + (coef reg - b) * ?x r = 0"
      unfolding sum_squares_fun_zero_iff .
    obtain r r' where r: "r \<in> set g" "r' \<in> set g" "bench_return r \<noteq> bench_return r'"
      using assms(4) by blast
    from z r have "(intercept reg - a) + (coef reg - b) * ?x r = 0"
      and "(intercept reg - a) + (coef reg - b) * ?x r' = 0" by simp_all
    then have "(coef reg - b) * (bench_return r - bench_return r') = 0"
      by (simp add: algebra_simps)
    with r(3) have b: "b = coef reg" by simp
    from z r(1) have "(intercept reg - a) + (coef reg - b) * ?x r = 0" by blast
    then have "a = intercept reg" unfolding b by simp
    with b show ?thesis by simp
  qed
  have a: "loc \<lparr>index = ?ks, data = [(''capm_alpha'', map (\<lambda>k. Some (Finite (intercept (?fit k)))) ?ks)]\<rparr>
      t ''capm_alpha'' = Some (Some (Finite (intercept reg)))"
    unfolding loc_single using mem reg unfolding assms(2) by simp
  have b: "loc \<lparr>index = ?ks, data = [(''capm_beta'', map (\<lambda>k. Some (Finite (coef (?fit k)))) ?ks)]\<rparr>
      t ''capm_beta'' = Some (Some (Finite (coef reg)))"
    unfolding loc_single using mem reg unfolding assms(2) by simp
  have ra: "fst (calc_alphas self) = Inr \<lparr>index = ?ks,
      data = [(''capm_alpha'', map (\<lambda>k. Some (Finite (intercept (?fit k)))) ?ks)]\<rparr>"
    unfolding calc_alphas_frame [OF tab] fst_conv ..
  have rb: "fst (calc_betas self) = Inr \<lparr>index = ?ks,
      data = [(''capm_beta'', map (\<lambda>k. Some (Finite (coef (?fit k)))) ?ks)]\<rparr>"
    unfolding calc_betas_frame [OF tab] fst_conv ..
  have l: "\<forall>a b. squared_residuals (risk_free_rate self) g (intercept reg) (coef reg)
               \<le> squared_residuals (risk_free_rate self) g a b"
    using least by blast
  have u: "\<forall>a b. squared_residuals (risk_free_rate self) g a b
                = squared_residuals (risk_free_rate self) g (intercept reg) (coef reg)
               \<longrightarrow> a = intercept reg \<and> b = coef reg"
    using unique by blast
  show ?thesis
    by (intro exI conjI; (rule reg ra rb a b l u)?)
qed

theorem capm_alpha_beta_shared_fit_witness:
  "''X'' \<in> ticker ` set (daily_returns (init [''X''] 1 3 example_db example_bench))
   \<and> 2 \<le> length (filter (\<lambda>r. ticker r = ''X'')
         (daily_returns (init [''X''] 1 3 example_db example_bench)))
   \<and> map bench_return (filter (\<lambda>r. ticker r = ''X'')
         (daily_returns (init [''X''] 1 3 example_db example_bench))) = [2 / 100, - 1 / 100, 1 / 100]
   \<and> (\<exists>alphas betas.
        fst (calc_alphas (init [''X''] 1 3 example_db example_bench)) = Inr alphas
      \<and> loc alphas ''X'' ''capm_alpha'' = Some (Some (Finite (- 1979 / 1400000)))
      \<and> fst (calc_betas (init [''X''] 1 3 example_db example_bench)) = Inr betas
      \<and> loc betas ''X'' ''capm_beta'' = Some (Some (Finite (17 / 14)))
      \<and> squared_residuals (7 / 100000) (filter (\<lambda>r. ticker r = ''X'')
             (daily_returns (init [''X''] 1 3 example_db example_bench))) (- 1979 / 1400000) (17 / 14)
          \<le> squared_residuals (7 / 100000) (filter (\<lambda>r. ticker r = ''X'')
             (daily_returns (init [''X''] 1 3 example_db example_bench))) 0 1)"
proof -
  let ?self = "init [''X''] 1 3 example_db example_bench"
  let ?g = "filter (\<lambda>r. ticker r = ''X'') (daily_returns ?self)"
  have g: "?g =
         [\<lparr>date = 1, ticker = ''X'', return = 1/100, benchmark = ''SP50'', bench_return = 2/100\<rparr>,
          \<lparr>date = 2, ticker = ''X'', return = -2/100, benchmark = ''SP50'', bench_return = -1/100\<rparr>,
          \<lparr>date = 3, ticker = ''X'', return = 3/100, benchmark = ''SP50'', bench_return = 1/100\<rparr>]"
    by (simp add: init_example)
  have rf: "risk_free_rate ?self = 7 / 100000"
    by (simp add: init_example)
  have h1: "''X'' \<in> ticker ` set (daily_returns ?self)"
    by (simp add: init_example)
  have h3: "2 \<le> length ?g"
    unfolding g by simp
  have h4: "\<exists>r \<in> set ?g. \<exists>r' \<in> set ?g. bench_return r \<noteq> bench_return r'"
    unfolding g by auto
  obtain alphas betas reg where
    f: "fit (map (\<lambda>r. bench_return r - risk_free_rate ?self) ?g)
          (map (\<lambda>r. return r - risk_free_rate ?self) ?g) = Inr reg"
    and a1: "fst (calc_alphas ?self) = Inr alphas"
    and a2: "loc alphas ''X'' ''capm_alpha'' = Some (Some (Finite (intercept reg)))"
    and b1: "fst (calc_betas ?self) = Inr betas"
    and b2: "loc betas ''X'' ''capm_beta'' = Some (Some (Finite (coef reg)))"
    and least: "\<forall>a b. squared_residuals (risk_free_rate ?self) ?g (intercept reg) (coef reg)
               \<le> squared_residuals (risk_free_rate ?self) ?g a b"
    using capm_alpha_beta_shared_fit [OF h1 refl h3 h4] by blast
  have reg: "reg = \<lparr>coef = 17 / 14, intercept = - 1979 / 1400000\<rparr>"
    using f unfolding rf g example_fit by simp
  have a3: "loc alphas ''X'' ''capm_alpha'' = Some (Some (Finite (- 1979 / 1400000)))"
    using a2 unfolding reg by simp
  have b3: "loc betas ''X'' ''capm_beta'' = Some (Some (Finite (17 / 14)))"
    using b2 unfolding reg by simp
  have l: "squared_residuals (7 / 100000) ?g (- 1979 / 1400000) (17 / 14)
          \<le> squared_residuals (7 / 100000) ?g 0 1"
    using least [rule_format, of 0 1] unfolding reg rf by simp
  have h5: "map bench_return ?g = [2 / 100, - 1 / 100, 1 / 100]"
    unfolding g by simp
  show ?thesis
    by (intro conjI exI; (rule h1 h3 h5 a1 a3 b1 b3 l)?)
qed

text \<open>
  C4, as stated, fails: for a ticker with a single observation \<open>calc_alphas\<close> and
  \<open>calc_betas\<close> raise nothing, they return the excess return of that day and zero.
\<close>

theorem capm_single_observation:
  "fst (calc_alphas (init [''X''] 1 1 example_db example_bench)) =
     Inr \<lparr>index = [''X''], data = [(''capm_alpha'', [Some (Finite (993 / 100000))])]\<rparr>
   \<and> fst (calc_betas (init [''X''] 1 1 example_db example_bench)) =
     Inr \<lparr>index = [''X''], data = [(''capm_beta'', [Some (Finite 0)])]\<rparr>"
  unfolding init_single
  by (simp add: calc_alphas_frame calc_betas_frame fit_def)



text \<open>
  C4, amended. For a ticker of the table with fewer than two rows, or with one and the
  same benchmark return in all its rows, no exception is raised: \<open>calc_alphas\<close> and
  \<open>calc_betas\<close> each hold a float for it. For a ticker with a single row that is
  \<open>0\<close> in \<open>calc_betas\<close> and the return of the row minus the risk-free rate in
  \<open>calc_alphas\<close>.
\<close>

theorem capm_degenerate_fit:
  assumes "t \<in> ticker ` set (daily_returns self)"
    and "g = filter (\<lambda>r. ticker r = t) (daily_returns self)"
    and "length g < 2 \<or> (\<forall>r \<in> set g. \<forall>r' \<in> set g. bench_return r = bench_return r')"
  shows "\<exists>alphas betas a b.
      fst (calc_alphas self) = Inr alphas
    \<and> loc alphas t ''capm_alpha'' = Some (Some a)
    \<and> fst (calc_betas self) = Inr betas
    \<and> loc betas t ''capm_beta'' = Some (Some b)
    \<and> (length g < 2 \<longrightarrow> a = Finite (return (hd g) - risk_free_rate self) \<and> b = Finite 0)"
proof -
  let ?ks = "sort (remdups (map ticker (daily_returns self)))"
  let ?x = "\<lambda>r. bench_return r - risk_free_rate self"
  let ?y = "\<lambda>r. return r - risk_free_rate self"
  let ?fit = "\<lambda>k. projr (fit (map ?x (filter (\<lambda>r. ticker r = k) (daily_returns self)))
                              (map ?y (filter (\<lambda>r. ticker r = k) (daily_returns self))))"
  have mem: "t \<in> set ?ks" using assms(1) by simp
  then have ne: "g \<noteq> []" unfolding assms(2) by (rule group_nonempty)
  have tab: "daily_returns self \<noteq> []" using assms(1) by auto
  have same: "\<forall>r \<in> set g. \<forall>r' \<in> set g. ?x r = ?x r'"
  proof (cases "length g < 2")
    case True
    with ne obtain r0 where "g = [r0]"
      using single_row by blast
    then show ?thesis by simp
  next
    case False
    with assms(3) have "\<forall>r \<in> set g. \<forall>r' \<in> set g. bench_return r = bench_return r'"
      by blast
    then show ?thesis by metis
  qed
  have f0: "fit (map ?x g) (map ?y g) =
     Inr \<lparr>coef = 0, intercept = (\<Sum>r\<leftarrow>g. return r - risk_free_rate self) / real (length g)\<rparr>"
    using ne same by (rule fit_degenerate)
  have f: "fit (map ?x g) (map ?y g) =
     Inr \<lparr>coef = 0, intercept = sum_list (map return g) / real (length g) - risk_free_rate self\<rparr>"
    using f0 unfolding mean_excess [OF ne] .
  have a: "loc \<lparr>index = ?ks, data = [(''capm_alpha'', map (\<lambda>k. Some (Finite (intercept (?fit k)))) ?ks)]\<rparr>
      t ''capm_alpha'' = Some (Some (Finite (sum_list (map return g) / real (length g) - risk_free_rate self)))"
    unfolding loc_single using mem f unfolding assms(2) by simp
  have b: "loc \<lparr>index = ?ks, data = [(''capm_beta'', map (\<lambda>k. Some (Finite (coef (?fit k)))) ?ks)]\<rparr>
      t ''capm_beta'' = Some (Some (Finite 0))"
    unfolding loc_single using mem f unfolding assms(2) by simp
  have ra: "fst (calc_alphas self) = Inr \<lparr>index = ?ks,
      data = [(''capm_alpha'', map (\<lambda>k. Some (Finite (intercept (?fit k)))) ?ks)]\<rparr>"
    unfolding calc_alphas_frame [OF tab] fst_conv ..
  have rb: "fst (calc_betas self) = Inr \<lparr>index = ?ks,
      data = [(''capm_beta'', map (\<lambda>k. Some (Finite (coef (?fit k)))) ?ks)]\<rparr>"
    unfolding calc_betas_frame [OF tab] fst_conv ..
  have one: "Finite (sum_list (map return g) / real (length g) - risk_free_rate self)
      = Finite (return (hd g) - risk_free_rate self) \<and> Finite 0 = (Finite 0 :: npfloat)"
    if "length g < 2"
  proof -
    from that ne obtain r0 where "g = [r0]"
      using single_row by blast
    then show ?thesis by simp
  qed
  show ?thesis
    by (rule exI [of _ "\<lparr>index = ?ks,
          data = [(''capm_alpha'', map (\<lambda>k. Some (Finite (intercept (?fit k)))) ?ks)]\<rparr>"],
        rule exI [of _ "\<lparr>index = ?ks,
          data = [(''capm_beta'', map (\<lambda>k. Some (Finite (coef (?fit k)))) ?ks)]\<rparr>"],
        rule exI [of _ "Finite (sum_list (map return g) / real (length g) - risk_free_rate self)"],
        rule exI [of _ "Finite 0"],
        intro conjI impI ra rb a b; (erule one [THEN conjunct1] | rule refl))
qed



theorem capm_degenerate_fit_witness:
  "''X'' \<in> ticker ` set (daily_returns (init [''X''] 2 2 example_db example_bench))
   \<and> length (filter (\<lambda>r. ticker r = ''X'')
         (daily_returns (init [''X''] 2 2 example_db example_bench))) < 2
   \<and> (\<exists>alphas betas.
        fst (calc_alphas (init [''X''] 2 2 example_db example_bench)) = Inr alphas
      \<and> loc alphas ''X'' ''capm_alpha'' = Some (Some (Finite (- 2007 / 100000)))
      \<and> fst (calc_betas (init [''X''] 2 2 example_db example_bench)) = Inr betas
      \<and> loc betas ''X'' ''capm_beta'' = Some (Some (Finite 0)))
   \<and> ''X'' \<in> ticker ` set (daily_returns (init [''X''] 1 3 example_db const_bench))
   \<and> map bench_return (filter (\<lambda>r. ticker r = ''X'')
         (daily_returns (init [''X''] 1 3 example_db const_bench))) = [1 / 100, 1 / 100, 1 / 100]
   \<and> (\<exists>alphas betas a b.
        fst (calc_alphas (init [''X''] 1 3 example_db const_bench)) = Inr alphas
      \<and> loc alphas ''X'' ''capm_alpha'' = Some (Some a)
      \<and> fst (calc_betas (init [''X''] 1 3 example_db const_bench)) = Inr betas
      \<and> loc betas ''X'' ''capm_beta'' = Some (Some b))"
proof -
  let ?one = "init [''X''] 2 2 example_db example_bench"
  let ?g1 = "filter (\<lambda>r. ticker r = ''X'') (daily_returns ?one)"
  let ?flat = "init [''X''] 1 3 example_db const_bench"
  let ?g2 = "filter (\<lambda>r. ticker r = ''X'') (daily_returns ?flat)"
  have g1: "?g1 =
     [\<lparr>date = 2, ticker = ''X'', return = -2/100, benchmark = ''SP50'', bench_return = -1/100\<rparr>]"
    by (simp add: init_single2)
  have g2: "?g2 =
     [\<lparr>date = 1, ticker = ''X'', return = 1/100, benchmark = ''SP50'', bench_return = 1/100\<rparr>,
      \<lparr>date = 2, ticker = ''X'', return = -2/100, benchmark = ''SP50'', bench_return = 1/100\<rparr>,
      \<lparr>date = 3, ticker = ''X'', return = 3/100, benchmark = ''SP50'', bench_return = 1/100\<rparr>]"
    by (simp add: init_const)
  have rf1: "risk_free_rate ?one = 7 / 100000" by (simp add: init_single2)
  have m1: "''X'' \<in> ticker ` set (daily_returns ?one)" by (simp add: init_single2)
  have m2: "''X'' \<in> ticker ` set (daily_returns ?flat)" by (simp add: init_const)
  have s1: "length ?g1 < 2" unfolding g1 by simp
  have s2: "map bench_return ?g2 = [1 / 100, 1 / 100, 1 / 100]" unfolding g2 by simp
  have d1: "length ?g1 < 2 \<or> (\<forall>r \<in> set ?g1. \<forall>r' \<in> set ?g1. bench_return r = bench_return r')"
    using s1 by (rule disjI1)
  have d2: "length ?g2 < 2 \<or> (\<forall>r \<in> set ?g2. \<forall>r' \<in> set ?g2. bench_return r = bench_return r')"
    unfolding g2 by simp
  obtain alphas betas a b where
    a1: "fst (calc_alphas ?one) = Inr alphas"
    and a2: "loc alphas ''X'' ''capm_alpha'' = Some (Some a)"
    and b1: "fst (calc_betas ?one) = Inr betas"
    and b2: "loc betas ''X'' ''capm_beta'' = Some (Some b)"
    and v: "length ?g1 < 2 \<longrightarrow> a = Finite (return (hd ?g1) - risk_free_rate ?one) \<and> b = Finite 0"
    using capm_degenerate_fit [OF m1 refl d1] by blast
  have "a = Finite (- 2007 / 100000)" and b0: "b = Finite 0"
    using v s1 unfolding g1 rf1 by simp_all
  then have a3: "loc alphas ''X'' ''capm_alpha'' = Some (Some (Finite (- 2007 / 100000)))"
    and b3: "loc betas ''X'' ''capm_beta'' = Some (Some (Finite 0))"
    using a2 b2 by simp_all
  obtain alphas' betas' a' b' where
    a1': "fst (calc_alphas ?flat) = Inr alphas'"
    and a2': "loc alphas' ''X'' ''capm_alpha'' = Some (Some a')"
    and b1': "fst (calc_betas ?flat) = Inr betas'"
    and b2': "loc betas' ''X'' ''capm_beta'' = Some (Some b')"
    using capm_degenerate_fit [OF m2 refl d2] by blast
  show ?thesis
    by (intro conjI exI; (rule m1 s1 a1 a3 b1 b3 m2 s2 a1' a2' b1' b2')?)
qed

section \<open>Reads only\<close>


section \<open>The unused parameters of the helper\<close>

text \<open>
  C10. The result of \<open>capm_regression\<close> is the same for any two pairs of values of
  its parameters \<open>port_returns\<close> and \<open>bench_returns\<close>, for every analyzer, data frame
  and \<open>stat\<close>. More: it is the same for two data frames with the same columns
  \<open>return\<close> and \<open>bench_return\<close> and two analyzers with the same risk-free rate.
\<close>

theorem capm_regression_ignores_port_and_bench:
  "capm_regression self df port_returns bench_returns stat
     = capm_regression self df port_returns' bench_returns' stat
   \<and> (map return df = map return df' \<and> map bench_return df = map bench_return df'
        \<and> risk_free_rate self = risk_free_rate self'
      \<longrightarrow> capm_regression self df port_returns bench_returns stat
        = capm_regression self' df' port_returns' bench_returns' stat)"
proof -
  have cols: "map (\<lambda>r. f (g r)) rows = map f (map g rows)"
    for f :: "real \<Rightarrow> real" and g :: "returns_row \<Rightarrow> real" and rows
    by simp
  have "capm_regression self df port_returns bench_returns stat
        = capm_regression self' df' port_returns' bench_returns' stat"
    if "map return df = map return df'" and "map bench_return df = map bench_return df'"
      and "risk_free_rate self = risk_free_rate self'"
    unfolding capm_regression_def
      cols [of "\<lambda>v. v - risk_free_rate self" bench_return]
      cols [of "\<lambda>v. v - risk_free_rate self" return]
      cols [of "\<lambda>v. v - risk_free_rate self'" bench_return]
      cols [of "\<lambda>v. v - risk_free_rate self'" return]
      that ..
  moreover have "capm_regression self df port_returns bench_returns stat
     = capm_regression self df port_returns' bench_returns' stat"
    by (simp add: capm_regression_def)
  ultimately show ?thesis by blast
qed

theorem capm_regression_ignores_port_and_bench_witness:
  "map return (daily_returns (init [''X''] 1 1 example_db example_bench))
     = map return [\<lparr>date = 7, ticker = ''Q'', return = 1/100, benchmark = ''R'',
         bench_return = 2/100\<rparr>]
   \<and> map bench_return (daily_returns (init [''X''] 1 1 example_db example_bench))
     = map bench_return [\<lparr>date = 7, ticker = ''Q'', return = 1/100, benchmark = ''R'',
         bench_return = 2/100\<rparr>]
   \<and> risk_free_rate (init [''X''] 1 1 example_db example_bench) = risk_free_rate example
   \<and> capm_regression (init [''X''] 1 1 example_db example_bench)
         (daily_returns (init [''X''] 1 1 example_db example_bench)) ''return'' ''bench_return'' ''alpha''
     = capm_regression example
         [\<lparr>date = 7, ticker = ''Q'', return = 1/100, benchmark = ''R'', bench_return = 2/100\<rparr>]
         ''bench_return'' ''date'' ''alpha''"
proof -
  let ?self = "init [''X''] 1 1 example_db example_bench"
  let ?df' = "[\<lparr>date = 7, ticker = ''Q'', return = 1/100, benchmark = ''R'',
         bench_return = 2/100 :: real\<rparr>]"
  have a: "map return (daily_returns ?self) = map return ?df'"
    by (simp add: init_single)
  have b: "map bench_return (daily_returns ?self) = map bench_return ?df'"
    by (simp add: init_single)
  have c: "risk_free_rate ?self = risk_free_rate example"
    by (simp add: init_single example_record)
  have "capm_regression ?self (daily_returns ?self) ''return'' ''bench_return'' ''alpha''
      = capm_regression example ?df' ''bench_return'' ''date'' ''alpha''"
    using capm_regression_ignores_port_and_bench
      [of ?self "daily_returns ?self" "''return''" "''bench_return''" "''alpha''"
          "''bench_return''" "''date''" ?df' example] a b c
    by blast
  with a b c show ?thesis by blast
qed

end
